theory Spec2Isabelle
  imports Main
begin

section \<open>Values, errors and the response envelope\<close>

text \<open>
  The client is TypeScript. Values typed \<open>any\<close> in the source (request bodies, the user
  record) are JSON values, numbers being integers; \<open>truthy\<close> is JavaScript's boolean
  coercion on them.
  A thrown exception is a value of \<open>exn\<close>, and an asynchronous function that may reject
  returns \<open>exn + 'a\<close> with \<open>Inl\<close> the rejection.
\<close>

datatype json =
    JNull
  | JBool bool
  | JNum int
  | JStr string
  | JArr "json list"
  | JObj "(string \<times> json) list"

fun truthy :: "json \<Rightarrow> bool" where
  "truthy JNull = False"
| "truthy (JBool b) = b"
| "truthy (JNum n) = (n \<noteq> 0)"
| "truthy (JStr s) = (s \<noteq> [])"
| "truthy (JArr xs) = True"
| "truthy (JObj kvs) = True"

datatype exn =
    Error string
  | SyntaxError
  | TypeError
  | StoreError

record Pagination =
  currentPage :: int
  totalPages :: int
  totalItems :: int
  itemsPerPage :: int

text \<open>
  \<open>interface ApiResponse<T = any>\<close>; an optional field is an \<open>option\<close>. A response body is
  taken to have this declared shape, with the payload type \<open>T\<close> a type parameter.
\<close>

record 'a ApiResponse =
  success :: bool
  message :: "string option"
  data :: "'a option"
  error :: "string option"
  pagination :: "Pagination option"

text \<open>
  The \<open>Response\<close> object that \<open>fetch\<close> resolves with: its status, its headers (looked up
  by lower-case name) and what \<open>response.json()\<close> would resolve or reject with.
  \<open>response.ok\<close> is the Fetch standard's: the status is in the range 200 to 299.
\<close>

record 'a Response =
  status :: nat
  response_headers :: "string \<rightharpoonup> string"
  json :: "exn + 'a ApiResponse"

definition ok :: "'a Response \<Rightarrow> bool" where
  "ok response = (200 \<le> status response \<and> status response \<le> 299)"

section \<open>String helpers of the language\<close>

text \<open>\<open>s.includes(sub)\<close>: \<open>sub\<close> occurs in \<open>s\<close> as a contiguous substring.\<close>

fun string_includes :: "string \<Rightarrow> string \<Rightarrow> bool" where
  "string_includes [] sub = (sub = [])"
| "string_includes (c # cs) sub = (take (length sub) (c # cs) = sub \<or> string_includes cs sub)"

definition digit :: "nat \<Rightarrow> char" where
  "digit n = ''0123456789'' ! (n mod 10)"

text \<open>The decimal text of a natural number, as a template literal prints a status code.\<close>

fun number_toString :: "nat \<Rightarrow> string" where
  "number_toString n =
     (if n < 10 then [digit n] else number_toString (n div 10) @ [digit (n mod 10)])"

declare number_toString.simps [simp del]

section \<open>HTTP client core: handleResponse\<close>

definition is_json_content_type :: "string option \<Rightarrow> bool" where
  "is_json_content_type contentType =
     (case contentType of
        None \<Rightarrow> False
      | Some ct \<Rightarrow> ct \<noteq> [] \<and> string_includes ct ''application/json'')"

definition failure_message :: "'a ApiResponse \<Rightarrow> string" where
  "failure_message d =
     (case message d of
        Some m \<Rightarrow>
          (if m \<noteq> [] then m
           else (case error d of
                   Some e \<Rightarrow> (if e \<noteq> [] then e else ''Request failed'')
                 | None \<Rightarrow> ''Request failed''))
      | None \<Rightarrow>
          (case error d of
             Some e \<Rightarrow> (if e \<noteq> [] then e else ''Request failed'')
           | None \<Rightarrow> ''Request failed''))"

definition synthetic_success :: "'a ApiResponse" where
  "synthetic_success =
     \<lparr>success = True, message = None, data = None, error = None, pagination = None\<rparr>"

definition handleResponse :: "'a Response \<Rightarrow> exn + 'a ApiResponse" where
  "handleResponse response =
     (let contentType = response_headers response ''content-type'' in
      if is_json_content_type contentType then
        (case json response of
           Inl e \<Rightarrow> Inl e
         | Inr d \<Rightarrow>
             if \<not> ok response then Inl (Error (failure_message d))
             else Inr d)
      else
        if \<not> ok response then
          Inl (Error (''Request failed with status '' @ number_toString (status response)))
        else Inr synthetic_success)"

section \<open>The secure credential store\<close>

text \<open>
  Modelled from the spec: the module \<open>@/utils/secure-storage\<close> (\<open>SecureStorage\<close>) is not
  among the sources. The spec gives it the contract \<open>get(key) -> value|absent\<close>,
  \<open>set(key, value) -> success|failure\<close>, \<open>delete(key) -> success|failure\<close>, each an atomic
  single-key operation whose failure is surfaced to the caller. The store is a map from
  keys to strings; whether the n-th store operation of a run throws is decided by the
  platform (\<open>store_throws\<close>), and an operation that throws leaves the store as it was.
\<close>

datatype store_op =
    GetItem string
  | SetItem string string
  | DeleteItem string

text \<open>
  The URL and the \<open>init\<close> object handed to \<open>fetch\<close>; \<open>http_method\<close> is its field
  \<open>method\<close>.
\<close>

record Request =
  http_method :: string
  url :: string
  headers :: "string \<rightharpoonup> string"
  body :: "string option"

text \<open>
  The platform's \<open>URL\<close> object: the serialised URL up to the query, the query string
  (absent when the URL has none), the list behind \<open>searchParams\<close> and the fragment.
\<close>

record URL =
  href_before_query :: string
  query :: "string option"
  searchParams :: "(string \<times> string) list"
  fragment :: "string option"

text \<open>
  Everything the code calls but does not define: the network, the faults of the
  credential store, the \<open>JSON\<close> object and the parser behind \<open>new URL\<close>.
\<close>

record 'a platform =
  fetch :: "Request \<Rightarrow> exn + 'a Response"
  store_throws :: "nat \<Rightarrow> store_op \<Rightarrow> bool"
  JSON_stringify :: "json \<Rightarrow> string"
  JSON_parse :: "string \<Rightarrow> exn + json"
  URL_new :: "string \<Rightarrow> exn + URL"

text \<open>\<open>interface AuthState\<close> of \<open>@/types\<close>; the user record is an opaque JSON value.\<close>

record AuthState =
  user :: "json option"
  token :: "string option"
  isAuthenticated :: bool

text \<open>
  The state the operations act on: the credential store and the count of operations
  made on it, the log of \<open>fetch\<close> calls, and the two React state cells of
  \<open>AuthProvider\<close>.
\<close>

record world =
  store :: "string \<rightharpoonup> string"
  store_ops :: nat
  requests :: "Request list"
  authState :: AuthState
  loading :: bool

definition getItemAsync ::
  "'a platform \<Rightarrow> string \<Rightarrow> world \<Rightarrow> (exn + string option) \<times> world" where
  "getItemAsync P key w =
     (let w' = w\<lparr>store_ops := Suc (store_ops w)\<rparr> in
      if store_throws P (store_ops w) (GetItem key) then (Inl StoreError, w')
      else (Inr (store w key), w'))"

definition setItemAsync ::
  "'a platform \<Rightarrow> string \<Rightarrow> string \<Rightarrow> world \<Rightarrow> (exn + unit) \<times> world" where
  "setItemAsync P key v w =
     (let w' = w\<lparr>store_ops := Suc (store_ops w)\<rparr> in
      if store_throws P (store_ops w) (SetItem key v) then (Inl StoreError, w')
      else (Inr (), w'\<lparr>store := (store w)(key \<mapsto> v)\<rparr>))"

definition deleteItemAsync ::
  "'a platform \<Rightarrow> string \<Rightarrow> world \<Rightarrow> (exn + unit) \<times> world" where
  "deleteItemAsync P key w =
     (let w' = w\<lparr>store_ops := Suc (store_ops w)\<rparr> in
      if store_throws P (store_ops w) (DeleteItem key) then (Inl StoreError, w')
      else (Inr (), w'\<lparr>store := (store w)(key := None)\<rparr>))"

section \<open>HTTP client core: requests\<close>

record ApiClient =
  baseURL :: string

definition API_BASE_URL :: "string option \<Rightarrow> string" where
  "API_BASE_URL EXPO_PUBLIC_API_URL =
     (case EXPO_PUBLIC_API_URL of
        Some u \<Rightarrow> (if u \<noteq> [] then u else ''http://192.168.0.187:3000/api'')
      | None \<Rightarrow> ''http://192.168.0.187:3000/api'')"

definition apiClient :: "string option \<Rightarrow> ApiClient" where
  "apiClient EXPO_PUBLIC_API_URL = \<lparr>baseURL = API_BASE_URL EXPO_PUBLIC_API_URL\<rparr>"

definition getAuthHeaders ::
  "'a platform \<Rightarrow> world \<Rightarrow> (exn + (string \<rightharpoonup> string)) \<times> world" where
  "getAuthHeaders P w =
     (case getItemAsync P ''auth_token'' w of
        (Inl e, w1) \<Rightarrow> (Inl e, w1)
      | (Inr tok, w1) \<Rightarrow>
          (let hs = [''Content-Type'' \<mapsto> ''application/json''] in
           (case tok of
              None \<Rightarrow> (Inr hs, w1)
            | Some t \<Rightarrow>
                if t \<noteq> [] then (Inr (hs(''Authorization'' \<mapsto> ''Bearer '' @ t)), w1)
                else (Inr hs, w1))))"

text \<open>\<open>data ? JSON.stringify(data) : undefined\<close>, for an optional argument \<open>data\<close>.\<close>

definition request_body :: "'a platform \<Rightarrow> json option \<Rightarrow> string option" where
  "request_body P d =
     (case d of
        None \<Rightarrow> None
      | Some v \<Rightarrow> if truthy v then Some (JSON_stringify P v) else None)"

definition post ::
  "'a platform \<Rightarrow> ApiClient \<Rightarrow> string \<Rightarrow> json option \<Rightarrow> world
     \<Rightarrow> (exn + 'a ApiResponse) \<times> world" where
  "post P c endpoint d w =
     (case getAuthHeaders P w of
        (Inl e, w1) \<Rightarrow> (Inl e, w1)
      | (Inr hs, w1) \<Rightarrow>
          (let req = \<lparr>http_method = ''POST'', url = baseURL c @ endpoint, headers = hs,
                      body = request_body P d\<rparr>;
               w2 = w1\<lparr>requests := requests w1 @ [req]\<rparr>
           in case fetch P req of
                Inl e \<Rightarrow> (Inl e, w2)
              | Inr response \<Rightarrow> (handleResponse response, w2)))"

definition put ::
  "'a platform \<Rightarrow> ApiClient \<Rightarrow> string \<Rightarrow> json option \<Rightarrow> world
     \<Rightarrow> (exn + 'a ApiResponse) \<times> world" where
  "put P c endpoint d w =
     (case getAuthHeaders P w of
        (Inl e, w1) \<Rightarrow> (Inl e, w1)
      | (Inr hs, w1) \<Rightarrow>
          (let req = \<lparr>http_method = ''PUT'', url = baseURL c @ endpoint, headers = hs,
                      body = request_body P d\<rparr>;
               w2 = w1\<lparr>requests := requests w1 @ [req]\<rparr>
           in case fetch P req of
                Inl e \<Rightarrow> (Inl e, w2)
              | Inr response \<Rightarrow> (handleResponse response, w2)))"

definition delete ::
  "'a platform \<Rightarrow> ApiClient \<Rightarrow> string \<Rightarrow> world \<Rightarrow> (exn + 'a ApiResponse) \<times> world" where
  "delete P c endpoint w =
     (case getAuthHeaders P w of
        (Inl e, w1) \<Rightarrow> (Inl e, w1)
      | (Inr hs, w1) \<Rightarrow>
          (let req = \<lparr>http_method = ''DELETE'', url = baseURL c @ endpoint, headers = hs,
                      body = None\<rparr>;
               w2 = w1\<lparr>requests := requests w1 @ [req]\<rparr>
           in case fetch P req of
                Inl e \<Rightarrow> (Inl e, w2)
              | Inr response \<Rightarrow> (handleResponse response, w2)))"

section \<open>HTTP client core: get and the URL it builds\<close>

text \<open>
  \<open>params\<close> is a \<open>Record<string, string>\<close>: its own properties in the order they were
  inserted, each key once. \<open>Object.entries\<close> enumerates the keys that are array indices
  (canonical decimal numerals below \<open>2^32 - 1\<close>) first, in ascending numeric order, and
  then the other keys in insertion order.
\<close>

definition is_digit :: "char \<Rightarrow> bool" where
  "is_digit c = (c \<in> set ''0123456789'')"

definition decimal_value :: "string \<Rightarrow> nat" where
  "decimal_value k = foldl (\<lambda>n c. 10 * n + (of_char c - 48)) 0 k"

definition is_array_index :: "string \<Rightarrow> bool" where
  "is_array_index k =
     (k \<noteq> [] \<and> list_all is_digit k \<and> (k = ''0'' \<or> hd k \<noteq> CHR ''0'')
      \<and> decimal_value k \<le> 4294967294)"

definition Object_entries :: "(string \<times> string) list \<Rightarrow> (string \<times> string) list" where
  "Object_entries ps =
     sort_key (\<lambda>kv. decimal_value (fst kv)) (filter (\<lambda>kv. is_array_index (fst kv)) ps)
     @ filter (\<lambda>kv. \<not> is_array_index (fst kv)) ps"

text \<open>
  The \<open>application/x-www-form-urlencoded\<close> serialiser of \<open>URLSearchParams\<close>, on the
  UTF-8 bytes of a string: a space becomes \<open>+\<close>, letters, digits and \<open>*-._\<close> stay, every
  other byte is percent-encoded with upper-case hexadecimal digits.
\<close>

definition hex_digit :: "nat \<Rightarrow> char" where
  "hex_digit n = ''0123456789ABCDEF'' ! (n mod 16)"

definition urlencoded_byte :: "char \<Rightarrow> string" where
  "urlencoded_byte c =
     (if c = CHR '' '' then ''+''
      else if c \<in> set ''*-._0123456789ABCDEFGHIJKLMNOPQRSTUVWXYZabcdefghijklmnopqrstuvwxyz''
        then [c]
      else [CHR ''%'', hex_digit (of_char c div 16), hex_digit (of_char c mod 16)])"

definition urlencoded_string :: "string \<Rightarrow> string" where
  "urlencoded_string s = concat (map urlencoded_byte s)"

fun join :: "string \<Rightarrow> string list \<Rightarrow> string" where
  "join sep [] = []"
| "join sep [x] = x"
| "join sep (x # y # ys) = x @ sep @ join sep (y # ys)"

definition urlencoded_serialize :: "(string \<times> string) list \<Rightarrow> string" where
  "urlencoded_serialize ps =
     join ''&'' (map (\<lambda>kv. urlencoded_string (fst kv) @ ''='' @ urlencoded_string (snd kv)) ps)"

text \<open>
  \<open>url.searchParams.append(key, value)\<close> adds the pair at the end of the list and
  rewrites the URL's query from the whole list; \<open>url.toString()\<close> serialises the URL.
\<close>

definition searchParams_append :: "URL \<Rightarrow> string \<Rightarrow> string \<Rightarrow> URL" where
  "searchParams_append u k v =
     (let ps = searchParams u @ [(k, v)]; q = urlencoded_serialize ps in
      u\<lparr>searchParams := ps, query := (if q = [] then None else Some q)\<rparr>)"

definition URL_toString :: "URL \<Rightarrow> string" where
  "URL_toString u =
     href_before_query u
     @ (case query u of None \<Rightarrow> [] | Some q \<Rightarrow> ''?'' @ q)
     @ (case fragment u of None \<Rightarrow> [] | Some f \<Rightarrow> ''#'' @ f)"

definition get ::
  "'a platform \<Rightarrow> ApiClient \<Rightarrow> string \<Rightarrow> (string \<times> string) list option \<Rightarrow> world
     \<Rightarrow> (exn + 'a ApiResponse) \<times> world" where
  "get P c endpoint params w =
     (case URL_new P (baseURL c @ endpoint) of
        Inl e \<Rightarrow> (Inl e, w)
      | Inr u0 \<Rightarrow>
          (let u = (case params of
                      None \<Rightarrow> u0
                    | Some ps \<Rightarrow>
                        foldl (\<lambda>u kv. searchParams_append u (fst kv) (snd kv)) u0
                          (Object_entries ps))
           in case getAuthHeaders P w of
                (Inl e, w1) \<Rightarrow> (Inl e, w1)
              | (Inr hs, w1) \<Rightarrow>
                  (let req = \<lparr>http_method = ''GET'', url = URL_toString u, headers = hs,
                              body = None\<rparr>;
                       w2 = w1\<lparr>requests := requests w1 @ [req]\<rparr>
                   in case fetch P req of
                        Inl e \<Rightarrow> (Inl e, w2)
                      | Inr response \<Rightarrow> (handleResponse response, w2))))"

section \<open>Resource API modules\<close>

definition authApi_login ::
  "'a platform \<Rightarrow> ApiClient \<Rightarrow> string \<Rightarrow> string \<Rightarrow> world
     \<Rightarrow> (exn + 'a ApiResponse) \<times> world" where
  "authApi_login P c email password =
     post P c ''/auth/login''
       (Some (JObj [(''email'', JStr email), (''password'', JStr password)]))"

definition authApi_register ::
  "'a platform \<Rightarrow> ApiClient \<Rightarrow> json \<Rightarrow> world \<Rightarrow> (exn + 'a ApiResponse) \<times> world" where
  "authApi_register P c userData = post P c ''/auth/register'' (Some userData)"

definition authApi_getCurrentUser ::
  "'a platform \<Rightarrow> ApiClient \<Rightarrow> world \<Rightarrow> (exn + 'a ApiResponse) \<times> world" where
  "authApi_getCurrentUser P c = get P c ''/auth/me'' None"

definition authApi_logout ::
  "'a platform \<Rightarrow> ApiClient \<Rightarrow> world \<Rightarrow> (exn + 'a ApiResponse) \<times> world" where
  "authApi_logout P c = post P c ''/auth/logout'' None"

definition patientsApi_getAll ::
  "'a platform \<Rightarrow> ApiClient \<Rightarrow> (string \<times> string) list option \<Rightarrow> world
     \<Rightarrow> (exn + 'a ApiResponse) \<times> world" where
  "patientsApi_getAll P c params = get P c ''/patients'' params"

section \<open>Session manager\<close>

text \<open>The \<open>data\<close> of a login or registration envelope, destructured as \<open>{ user, token }\<close>.\<close>

record AuthPayload =
  payload_user :: json
  payload_token :: string

definition initialAuthState :: AuthState where
  "initialAuthState = \<lparr>user = None, token = None, isAuthenticated = False\<rparr>"

definition clearAuth :: "'a platform \<Rightarrow> world \<Rightarrow> world" where
  "clearAuth P w =
     (let w' = (case deleteItemAsync P ''auth_token'' w of
                  (Inl e, w1) \<Rightarrow> w1
                | (Inr _, w1) \<Rightarrow>
                    (case deleteItemAsync P ''user_data'' w1 of
                       (Inl e, w2) \<Rightarrow> w2
                     | (Inr _, w2) \<Rightarrow> w2))
      in w'\<lparr>authState := \<lparr>user = None, token = None, isAuthenticated = False\<rparr>\<rparr>)"

definition login ::
  "AuthPayload platform \<Rightarrow> ApiClient \<Rightarrow> string \<Rightarrow> string \<Rightarrow> world \<Rightarrow> bool \<times> world" where
  "login P c email password w =
     (case authApi_login P c email password w of
        (Inl e, w1) \<Rightarrow> (False, w1)
      | (Inr response, w1) \<Rightarrow>
          (case (if success response then data response else None) of
             None \<Rightarrow> (False, w1)
           | Some d \<Rightarrow>
               (case setItemAsync P ''auth_token'' (payload_token d) w1 of
                  (Inl e, w2) \<Rightarrow> (False, w2)
                | (Inr _, w2) \<Rightarrow>
                    (case setItemAsync P ''user_data'' (JSON_stringify P (payload_user d)) w2 of
                       (Inl e, w3) \<Rightarrow> (False, w3)
                     | (Inr _, w3) \<Rightarrow>
                         (True,
                          w3\<lparr>authState :=
                               \<lparr>user = Some (payload_user d), token = Some (payload_token d),
                                isAuthenticated = True\<rparr>\<rparr>)))))"

definition register ::
  "AuthPayload platform \<Rightarrow> ApiClient \<Rightarrow> json \<Rightarrow> world \<Rightarrow> bool \<times> world" where
  "register P c userData w =
     (case authApi_register P c userData w of
        (Inl e, w1) \<Rightarrow> (False, w1)
      | (Inr response, w1) \<Rightarrow>
          (case (if success response then data response else None) of
             None \<Rightarrow> (False, w1)
           | Some d \<Rightarrow>
               (case setItemAsync P ''auth_token'' (payload_token d) w1 of
                  (Inl e, w2) \<Rightarrow> (False, w2)
                | (Inr _, w2) \<Rightarrow>
                    (case setItemAsync P ''user_data'' (JSON_stringify P (payload_user d)) w2 of
                       (Inl e, w3) \<Rightarrow> (False, w3)
                     | (Inr _, w3) \<Rightarrow>
                         (True,
                          w3\<lparr>authState :=
                               \<lparr>user = Some (payload_user d), token = Some (payload_token d),
                                isAuthenticated = True\<rparr>\<rparr>)))))"

definition logout :: "'a platform \<Rightarrow> ApiClient \<Rightarrow> world \<Rightarrow> world" where
  "logout P c w =
     (case authApi_logout P c w of
        (Inl e, w1) \<Rightarrow> clearAuth P w1
      | (Inr _, w1) \<Rightarrow> clearAuth P w1)"

definition loadStoredAuth :: "json platform \<Rightarrow> ApiClient \<Rightarrow> world \<Rightarrow> world" where
  "loadStoredAuth P c w =
     (let w' =
        (case getItemAsync P ''auth_token'' w of
           (Inl e, w1) \<Rightarrow> clearAuth P w1
         | (Inr tok, w1) \<Rightarrow>
             (case getItemAsync P ''user_data'' w1 of
                (Inl e, w2) \<Rightarrow> clearAuth P w2
              | (Inr userData, w2) \<Rightarrow>
                  (case (tok, userData) of
                     (Some t, Some u) \<Rightarrow>
                       if t \<noteq> [] \<and> u \<noteq> [] then
                         (case JSON_parse P u of
                            Inl e \<Rightarrow> clearAuth P w2
                          | Inr parsed \<Rightarrow>
                              (case authApi_getCurrentUser P c w2 of
                                 (Inl e, w3) \<Rightarrow> clearAuth P w3
                               | (Inr response, w3) \<Rightarrow>
                                   (case (if success response then data response else None) of
                                      None \<Rightarrow> clearAuth P w3
                                    | Some d \<Rightarrow>
                                        if truthy d then
                                          w3\<lparr>authState :=
                                               \<lparr>user = Some d, token = Some t,
                                                isAuthenticated = True\<rparr>\<rparr>
                                        else clearAuth P w3)))
                       else w2
                   | _ \<Rightarrow> w2)))
      in w'\<lparr>loading := False\<rparr>)"

text \<open>
  Mounting \<open>AuthProvider\<close>: the state cells start at their initial values and the effect
  runs \<open>loadStoredAuth\<close> once. This is the hydration run.
\<close>

definition mount_world :: "(string \<rightharpoonup> string) \<Rightarrow> world" where
  "mount_world st =
     \<lparr>store = st, store_ops = 0, requests = [], authState = initialAuthState, loading = True\<rparr>"

definition AuthProvider_mount ::
  "json platform \<Rightarrow> ApiClient \<Rightarrow> (string \<rightharpoonup> string) \<Rightarrow> world" where
  "AuthProvider_mount P c st = loadStoredAuth P c (mount_world st)"

section \<open>Vocabulary of the properties\<close>

text \<open>The session state \<open>Unauthenticated\<close>.\<close>

definition unauthenticated :: AuthState where
  "unauthenticated = \<lparr>user = None, token = None, isAuthenticated = False\<rparr>"

text \<open>The two credential entries are both present or both absent.\<close>

definition paired :: "(string \<rightharpoonup> string) \<Rightarrow> bool" where
  "paired st = (st ''auth_token'' = None \<longleftrightarrow> st ''user_data'' = None)"

text \<open>
  An API call that did not deliver: it rejected, or its envelope fails the test
  \<open>response.success && response.data\<close> of the session manager. For a login the data is
  an object, truthy when present; for \<open>getCurrentUser\<close> it is any JSON value.
\<close>

definition envelope_failed :: "exn + 'a ApiResponse \<Rightarrow> bool" where
  "envelope_failed r =
     (case r of
        Inl e \<Rightarrow> True
      | Inr response \<Rightarrow> \<not> success response \<or> data response = None)"

definition validation_failed :: "exn + json ApiResponse \<Rightarrow> bool" where
  "validation_failed r =
     (case r of
        Inl e \<Rightarrow> True
      | Inr response \<Rightarrow>
          \<not> success response \<or> (case data response of None \<Rightarrow> True | Some d \<Rightarrow> \<not> truthy d))"

text \<open>
  The outcome of the \<open>getCurrentUser\<close> call of a hydration run started in \<open>w\<close>: the call
  is made after the two reads of the store.
\<close>

definition validation_call :: "json platform \<Rightarrow> ApiClient \<Rightarrow> world \<Rightarrow> exn + json ApiResponse" where
  "validation_call P c w =
     fst (authApi_getCurrentUser P c (w\<lparr>store_ops := Suc (Suc (store_ops w))\<rparr>))"

text \<open>No write to the store throws; no deletion from it throws.\<close>

definition no_write_throws :: "'a platform \<Rightarrow> bool" where
  "no_write_throws P = (\<forall>n k v. \<not> store_throws P n (SetItem k v))"

definition no_delete_throws :: "'a platform \<Rightarrow> bool" where
  "no_delete_throws P = (\<forall>n k. \<not> store_throws P n (DeleteItem k))"

text \<open>
  The spec's "declared content type is JSON", read as a JSON media type: the essence of
  the header value (the part before any parameter, trimmed, compared without regard to
  case) is \<open>application/json\<close> or \<open>text/json\<close>, or ends in \<open>+json\<close>. The code's own test
  is \<open>is_json_content_type\<close> above.
\<close>

definition ascii_lower :: "char \<Rightarrow> char" where
  "ascii_lower c =
     (case map_of (zip ''ABCDEFGHIJKLMNOPQRSTUVWXYZ'' ''abcdefghijklmnopqrstuvwxyz'') c of
        Some l \<Rightarrow> l
      | None \<Rightarrow> c)"

definition is_http_space :: "char \<Rightarrow> bool" where
  "is_http_space c = (c = CHR '' '' \<or> c = CHR 0x09)"

definition trim :: "string \<Rightarrow> string" where
  "trim s = rev (dropWhile is_http_space (rev (dropWhile is_http_space s)))"

definition mime_essence :: "string \<Rightarrow> string" where
  "mime_essence ct = map ascii_lower (trim (takeWhile (\<lambda>c. c \<noteq> CHR '';'') ct))"

definition ends_with :: "string \<Rightarrow> string \<Rightarrow> bool" where
  "ends_with s suffix =
     (length suffix \<le> length s \<and> drop (length s - length suffix) s = suffix)"

definition declares_json :: "string option \<Rightarrow> bool" where
  "declares_json contentType =
     (case contentType of
        None \<Rightarrow> False
      | Some ct \<Rightarrow>
          mime_essence ct = ''application/json'' \<or> mime_essence ct = ''text/json''
          \<or> ends_with (mime_essence ct) ''+json'')"

text \<open>The URL object of \<open>get\<close> after the loop over \<open>Object.entries(params)\<close>.\<close>

definition built_url :: "URL \<Rightarrow> (string \<times> string) list option \<Rightarrow> URL" where
  "built_url u0 params =
     (case params of
        None \<Rightarrow> u0
      | Some ps \<Rightarrow> foldl (\<lambda>u kv. searchParams_append u (fst kv) (snd kv)) u0 (Object_entries ps))"

text \<open>A string that the form-urlencoded serialiser leaves as it is.\<close>

definition form_safe :: "string \<Rightarrow> bool" where
  "form_safe s =
     (\<forall>c \<in> set s. c \<in> set ''*-._0123456789ABCDEFGHIJKLMNOPQRSTUVWXYZabcdefghijklmnopqrstuvwxyz'')"

section \<open>A stub server and a stub platform\<close>

text \<open>
  Test doubles for the concrete runs below: a URL parser that takes its argument as it
  is, servers that answer every request alike, and fault patterns of the store.
\<close>

definition plain_URL :: "string \<Rightarrow> exn + URL" where
  "plain_URL s = Inr \<lparr>href_before_query = s, query = None, searchParams = [], fragment = None\<rparr>"

definition stub_platform ::
  "(Request \<Rightarrow> exn + 'a Response) \<Rightarrow> (nat \<Rightarrow> store_op \<Rightarrow> bool) \<Rightarrow> 'a platform" where
  "stub_platform server faults =
     \<lparr>fetch = server, store_throws = faults, JSON_stringify = (\<lambda>v. ''{\"id\":1}''),
      JSON_parse = (\<lambda>s. Inr (JObj [(''id'', JNum 1)])), URL_new = plain_URL\<rparr>"

definition json_response :: "nat \<Rightarrow> 'a ApiResponse \<Rightarrow> 'a Response" where
  "json_response code envelope =
     \<lparr>status = code, response_headers = [''content-type'' \<mapsto> ''application/json''],
      json = Inr envelope\<rparr>"

definition html_response :: "nat \<Rightarrow> 'a Response" where
  "html_response code =
     \<lparr>status = code, response_headers = [''content-type'' \<mapsto> ''text/html''],
      json = Inl SyntaxError\<rparr>"

definition json_reply :: "nat \<Rightarrow> 'a ApiResponse \<Rightarrow> Request \<Rightarrow> exn + 'a Response" where
  "json_reply code envelope req = Inr (json_response code envelope)"

definition html_reply :: "nat \<Rightarrow> Request \<Rightarrow> exn + 'a Response" where
  "html_reply code req = Inr (html_response code)"

definition network_down :: "Request \<Rightarrow> exn + 'a Response" where
  "network_down req = Inl TypeError"

definition no_faults :: "nat \<Rightarrow> store_op \<Rightarrow> bool" where
  "no_faults n op = False"

definition deletes_throw :: "nat \<Rightarrow> store_op \<Rightarrow> bool" where
  "deletes_throw n op = (case op of DeleteItem k \<Rightarrow> True | _ \<Rightarrow> False)"

definition token_write_throws :: "nat \<Rightarrow> store_op \<Rightarrow> bool" where
  "token_write_throws n op = (case op of SetItem k v \<Rightarrow> k = ''auth_token'' | _ \<Rightarrow> False)"

definition user_write_throws :: "nat \<Rightarrow> store_op \<Rightarrow> bool" where
  "user_write_throws n op = (case op of SetItem k v \<Rightarrow> k = ''user_data'' | _ \<Rightarrow> False)"

definition ann :: json where
  "ann = JObj [(''id'', JNum 1)]"

definition login_envelope :: "AuthPayload ApiResponse" where
  "login_envelope =
     \<lparr>success = True, message = None,
      data = Some \<lparr>payload_user = ann, payload_token = ''tok''\<rparr>,
      error = None, pagination = None\<rparr>"

definition rejected_envelope :: "AuthPayload ApiResponse" where
  "rejected_envelope =
     \<lparr>success = False, message = Some ''Invalid credentials'', data = None, error = None,
      pagination = None\<rparr>"

definition client0 :: ApiClient where
  "client0 = apiClient None"

definition fresh_world :: world where
  "fresh_world =
     \<lparr>store = Map.empty, store_ops = 0, requests = [], authState = initialAuthState,
      loading = False\<rparr>"

definition stored_session :: "string \<rightharpoonup> string" where
  "stored_session = [''auth_token'' \<mapsto> ''tok'', ''user_data'' \<mapsto> ''{\"id\":1}'']"

definition signed_in_world :: world where
  "signed_in_world =
     \<lparr>store = stored_session, store_ops = 0, requests = [],
      authState = \<lparr>user = Some ann, token = Some ''tok'', isAuthenticated = True\<rparr>,
      loading = False\<rparr>"

definition empty_token_world :: world where
  "empty_token_world =
     \<lparr>store = [''auth_token'' \<mapsto> [], ''user_data'' \<mapsto> ''{\"id\":1}''], store_ops = 0,
      requests = [], authState = initialAuthState, loading = False\<rparr>"

definition login_ok :: "AuthPayload platform" where
  "login_ok = stub_platform (json_reply 200 login_envelope) no_faults"

definition login_rejected :: "AuthPayload platform" where
  "login_rejected = stub_platform (json_reply 200 rejected_envelope) no_faults"

definition login_ok_token_write_fault :: "AuthPayload platform" where
  "login_ok_token_write_fault = stub_platform (json_reply 200 login_envelope) token_write_throws"

definition login_ok_user_write_fault :: "AuthPayload platform" where
  "login_ok_user_write_fault = stub_platform (json_reply 200 login_envelope) user_write_throws"

definition offline :: "json platform" where
  "offline = stub_platform network_down no_faults"

definition offline_delete_fault :: "json platform" where
  "offline_delete_fault = stub_platform network_down deletes_throw"

definition unauthorized :: "json platform" where
  "unauthorized = stub_platform (html_reply 401) no_faults"

definition unauthorized_delete_fault :: "json platform" where
  "unauthorized_delete_fault = stub_platform (html_reply 401) deletes_throw"

definition no_content :: "json platform" where
  "no_content = stub_platform (html_reply 204) no_faults"

definition typed_response :: "string \<Rightarrow> nat \<Rightarrow> exn + 'a ApiResponse \<Rightarrow> 'a Response" where
  "typed_response ct code parsed =
     \<lparr>status = code, response_headers = [''content-type'' \<mapsto> ct], json = parsed\<rparr>"

text \<open>The world after a login whose write of the user record threw.\<close>

definition lone_token_world :: world where
  "lone_token_world =
     snd (login login_ok_user_write_fault client0 ''ann@clinic.test'' ''secret'' fresh_world)"

lemmas mime_defs = declares_json_def mime_essence_def trim_def is_http_space_def ascii_lower_def
  ends_with_def typed_response_def

lemmas stub_defs = plain_URL_def stub_platform_def json_reply_def html_reply_def network_down_def
  json_response_def html_response_def
  no_faults_def deletes_throw_def token_write_throws_def user_write_throws_def ann_def
  login_envelope_def rejected_envelope_def client0_def fresh_world_def stored_session_def
  signed_in_world_def empty_token_world_def apiClient_def API_BASE_URL_def
  login_ok_def login_rejected_def login_ok_token_write_fault_def login_ok_user_write_fault_def
  offline_def offline_delete_fault_def unauthorized_def unauthorized_delete_fault_def
  no_content_def

lemmas run_defs = login_def register_def logout_def loadStoredAuth_def clearAuth_def
  authApi_login_def authApi_register_def authApi_logout_def authApi_getCurrentUser_def
  post_def put_def delete_def get_def getAuthHeaders_def getItemAsync_def setItemAsync_def
  deleteItemAsync_def handleResponse_def is_json_content_type_def ok_def request_body_def
  AuthProvider_mount_def mount_world_def initialAuthState_def Let_def
  failure_message_def synthetic_success_def URL_toString_def

lemmas url_defs = Object_entries_def is_array_index_def is_digit_def decimal_value_def
  urlencoded_serialize_def urlencoded_string_def urlencoded_byte_def searchParams_append_def

section \<open>Decimal numerals\<close>

lemma digit_code: "m < 10 \<Longrightarrow> of_char (digit m) = (48::nat) + m"
proof -
  assume "m < 10"
  then consider "m = 0" | "m = 1" | "m = 2" | "m = 3" | "m = 4"
    | "m = 5" | "m = 6" | "m = 7" | "m = 8" | "m = 9"
    by atomize_elim arith
  then show ?thesis by cases (simp_all add: digit_def)
qed

lemma decimal_value_snoc:
  "decimal_value (xs @ [c]) = 10 * decimal_value xs + (of_char c - 48)"
  by (simp add: decimal_value_def)

lemma decimal_value_number_toString: "decimal_value (number_toString n) = n"
proof (induction n rule: number_toString.induct)
  case (1 n)
  show ?case
  proof (cases "n < 10")
    case True
    then show ?thesis
      by (subst number_toString.simps) (simp add: decimal_value_def digit_code)
  next
    case False
    have "decimal_value (number_toString n)
          = 10 * decimal_value (number_toString (n div 10)) + (of_char (digit (n mod 10)) - 48)"
      using False by (subst number_toString.simps) (simp add: decimal_value_snoc)
    also have "\<dots> = 10 * (n div 10) + n mod 10"
      using 1 False by (simp add: digit_code)
    finally show ?thesis by simp
  qed
qed

section \<open>Effects of the store and of the HTTP operations\<close>

lemma getAuthHeaders_world:
  "snd (getAuthHeaders P w) = w\<lparr>store_ops := Suc (store_ops w)\<rparr>"
  by (simp add: getAuthHeaders_def getItemAsync_def Let_def split: option.splits)

lemma getAuthHeaders_throws:
  "store_throws P (store_ops w) (GetItem ''auth_token'') \<Longrightarrow> fst (getAuthHeaders P w) = Inl StoreError"
  by (simp add: getAuthHeaders_def getItemAsync_def Let_def)

lemma getAuthHeaders_result:
  "\<not> store_throws P (store_ops w) (GetItem ''auth_token'') \<Longrightarrow>
   \<exists>hs. fst (getAuthHeaders P w) = Inr hs
      \<and> hs ''Content-Type'' = Some ''application/json''
      \<and> hs ''Authorization'' =
          (case store w ''auth_token'' of
             None \<Rightarrow> None
           | Some t \<Rightarrow> if t = [] then None else Some (''Bearer '' @ t))"
  by (simp add: getAuthHeaders_def getItemAsync_def Let_def split: option.splits)

lemma post_world:
  "store (snd (post P c ep d w)) = store w"
  "authState (snd (post P c ep d w)) = authState w"
  "loading (snd (post P c ep d w)) = loading w"
  "store_ops (snd (post P c ep d w)) = Suc (store_ops w)"
  by (cases "getAuthHeaders P w"; cases "fst (getAuthHeaders P w)";
      insert getAuthHeaders_world[of P w];
      simp add: post_def Let_def split: sum.splits)+

lemma get_world:
  "store (snd (get P c ep ps w)) = store w"
  "authState (snd (get P c ep ps w)) = authState w"
  "loading (snd (get P c ep ps w)) = loading w"
  by (cases "getAuthHeaders P w"; cases "fst (getAuthHeaders P w)";
      insert getAuthHeaders_world[of P w];
      simp add: get_def Let_def split: sum.splits)+

lemma clearAuth_authState: "authState (clearAuth P w) = unauthenticated"
  by (simp add: clearAuth_def unauthenticated_def Let_def)

lemma clearAuth_requests: "requests (clearAuth P w) = requests w"
  by (simp add: clearAuth_def deleteItemAsync_def Let_def)

lemma clearAuth_store:
  "\<forall>n k. \<not> store_throws P n (DeleteItem k) \<Longrightarrow>
   store (clearAuth P w) = (store w)(''auth_token'' := None, ''user_data'' := None)"
  by (simp add: clearAuth_def deleteItemAsync_def Let_def)


lemma logout_authState: "authState (logout P c w) = unauthenticated"
  by (simp add: logout_def clearAuth_authState split: prod.splits sum.splits)

lemma logout_store:
  assumes "\<forall>n k. \<not> store_throws P n (DeleteItem k)"
  shows "store (logout P c w) = (store w)(''auth_token'' := None, ''user_data'' := None)"
proof -
  obtain r w1 where a: "authApi_logout P c w = (r, w1)" by (cases "authApi_logout P c w")
  then have "store w1 = store w"
    using post_world(1)[of P c "''/auth/logout''" None w] by (simp add: authApi_logout_def)
  then show ?thesis
    using a assms by (simp add: logout_def clearAuth_store split: sum.splits)
qed

lemma loadStoredAuth_absent:
  assumes "store w ''auth_token'' = None \<or> store w ''user_data'' = None"
  shows "requests (loadStoredAuth P c w) = requests w"
    and "authState (loadStoredAuth P c w) = authState w
         \<or> authState (loadStoredAuth P c w) = unauthenticated"
  using assms
  by (auto simp: loadStoredAuth_def getItemAsync_def Let_def clearAuth_requests clearAuth_authState
      split: option.splits)

lemma login_unfold:
  assumes "authApi_login P c email password w = (a, w1)"
  shows "store w1 = store w" "authState w1 = authState w" "loading w1 = loading w"
proof -
  have w1: "w1 = snd (post P c ''/auth/login''
      (Some (JObj [(''email'', JStr email), (''password'', JStr password)])) w)"
    using assms by (simp add: authApi_login_def)
  show "store w1 = store w" "authState w1 = authState w" "loading w1 = loading w"
    by (simp_all add: w1 post_world)
qed

lemma post_requests:
  "requests (snd (post P c ep d w)) = requests w @
     (case fst (getAuthHeaders P w) of
        Inl e \<Rightarrow> []
      | Inr hs \<Rightarrow> [\<lparr>http_method = ''POST'', url = baseURL c @ ep, headers = hs,
                    body = request_body P d\<rparr>])"
  by (cases "getAuthHeaders P w"; cases "fst (getAuthHeaders P w)";
      insert getAuthHeaders_world[of P w];
      simp add: post_def Let_def split: sum.splits)

lemma put_requests:
  "requests (snd (put P c ep d w)) = requests w @
     (case fst (getAuthHeaders P w) of
        Inl e \<Rightarrow> []
      | Inr hs \<Rightarrow> [\<lparr>http_method = ''PUT'', url = baseURL c @ ep, headers = hs,
                    body = request_body P d\<rparr>])"
  by (cases "getAuthHeaders P w"; cases "fst (getAuthHeaders P w)";
      insert getAuthHeaders_world[of P w];
      simp add: put_def Let_def split: sum.splits)

lemma delete_requests:
  "requests (snd (delete P c ep w)) = requests w @
     (case fst (getAuthHeaders P w) of
        Inl e \<Rightarrow> []
      | Inr hs \<Rightarrow> [\<lparr>http_method = ''DELETE'', url = baseURL c @ ep, headers = hs, body = None\<rparr>])"
  by (cases "getAuthHeaders P w"; cases "fst (getAuthHeaders P w)";
      insert getAuthHeaders_world[of P w];
      simp add: delete_def Let_def split: sum.splits)

lemma get_requests:
  "requests (snd (get P c ep params w)) = requests w @
     (case URL_new P (baseURL c @ ep) of
        Inl e \<Rightarrow> []
      | Inr u0 \<Rightarrow>
          (case fst (getAuthHeaders P w) of
             Inl e \<Rightarrow> []
           | Inr hs \<Rightarrow> [\<lparr>http_method = ''GET'', url = URL_toString (built_url u0 params),
                         headers = hs, body = None\<rparr>]))"
  by (cases "getAuthHeaders P w"; cases "fst (getAuthHeaders P w)";
      insert getAuthHeaders_world[of P w];
      simp add: get_def built_url_def Let_def split: sum.splits)

lemma headers_of_getAuthHeaders:
  assumes "fst (getAuthHeaders P w) = Inr hs"
  shows "hs ''Content-Type'' = Some ''application/json''
     \<and> hs ''Authorization'' =
          (case store w ''auth_token'' of
             None \<Rightarrow> None
           | Some t \<Rightarrow> if t = [] then None else Some (''Bearer '' @ t))"
proof -
  have "\<not> store_throws P (store_ops w) (GetItem ''auth_token'')"
    using assms getAuthHeaders_throws[of P w] by auto
  from getAuthHeaders_result[OF this] assms show ?thesis by auto
qed

lemma append_fold_snoc:
  "foldl (\<lambda>u kv. searchParams_append u (fst kv) (snd kv)) u0 (es @ [e])
   = searchParams_append (foldl (\<lambda>u kv. searchParams_append u (fst kv) (snd kv)) u0 es) (fst e) (snd e)"
  by simp

lemma append_fold_fields:
  "href_before_query (foldl (\<lambda>u kv. searchParams_append u (fst kv) (snd kv)) u0 es) = href_before_query u0
   \<and> fragment (foldl (\<lambda>u kv. searchParams_append u (fst kv) (snd kv)) u0 es) = fragment u0
   \<and> searchParams (foldl (\<lambda>u kv. searchParams_append u (fst kv) (snd kv)) u0 es) = searchParams u0 @ es
   \<and> query (foldl (\<lambda>u kv. searchParams_append u (fst kv) (snd kv)) u0 es)
       = (if es = [] then query u0
          else if urlencoded_serialize (searchParams u0 @ es) = [] then None
          else Some (urlencoded_serialize (searchParams u0 @ es)))"
proof (induction es rule: rev_induct)
  case Nil
  show ?case by simp
next
  case (snoc e es)
  show ?case
    unfolding append_fold_snoc using snoc
    by (simp add: searchParams_append_def Let_def)
qed

lemma join_nonempty: "x \<noteq> [] \<Longrightarrow> join sep (x # xs) \<noteq> []"
  by (cases xs) simp_all

lemma urlencoded_serialize_nonempty: "ps \<noteq> [] \<Longrightarrow> urlencoded_serialize ps \<noteq> []"
  by (cases ps) (simp_all add: urlencoded_serialize_def join_nonempty)

lemma Object_entries_no_index:
  "\<forall>kv \<in> set ps. \<not> is_array_index (fst kv) \<Longrightarrow> Object_entries ps = ps"
proof -
  assume a: "\<forall>kv \<in> set ps. \<not> is_array_index (fst kv)"
  then have "filter (\<lambda>kv. is_array_index (fst kv)) ps = []"
    by (simp add: filter_empty_conv)
  moreover have "filter (\<lambda>kv. \<not> is_array_index (fst kv)) ps = ps"
    using a by (simp add: filter_id_conv)
  ultimately show ?thesis by (simp add: Object_entries_def)
qed

lemma Object_entries_length: "length (Object_entries ps) = length ps"
  by (simp add: Object_entries_def sum_length_filter_compl)

lemma Object_entries_Nil: "Object_entries ps = [] \<longleftrightarrow> ps = []"
  using Object_entries_length[of ps] by (metis length_0_conv)

lemma urlencoded_string_safe: "form_safe s \<Longrightarrow> urlencoded_string s = s"
proof (induction s)
  case Nil
  show ?case by (simp add: urlencoded_string_def)
next
  case (Cons c s)
  have "c \<in> set ''*-._0123456789ABCDEFGHIJKLMNOPQRSTUVWXYZabcdefghijklmnopqrstuvwxyz''"
    using Cons.prems by (simp add: form_safe_def)
  moreover from this have "c \<noteq> CHR '' ''" by auto
  ultimately have "urlencoded_byte c = [c]" by (simp only: urlencoded_byte_def if_True if_False)
  moreover have "urlencoded_string s = s" using Cons by (simp add: form_safe_def)
  ultimately show ?case by (simp add: urlencoded_string_def)
qed

lemma urlencoded_serialize_safe:
  assumes "\<forall>kv \<in> set ps. form_safe (fst kv) \<and> form_safe (snd kv)"
  shows "urlencoded_serialize ps = join ''&'' (map (\<lambda>kv. fst kv @ ''='' @ snd kv) ps)"
proof -
  have "map (\<lambda>kv. urlencoded_string (fst kv) @ ''='' @ urlencoded_string (snd kv)) ps
        = map (\<lambda>kv. fst kv @ ''='' @ snd kv) ps"
    using assms by (simp add: urlencoded_string_safe)
  then show ?thesis by (simp only: urlencoded_serialize_def)
qed

lemma clearAuth_paired: "no_delete_throws P \<Longrightarrow> paired (store (clearAuth P w))"
  by (simp add: no_delete_throws_def clearAuth_store paired_def)

lemma loadStoredAuth_store:
  "store (loadStoredAuth P c w) = store w
   \<or> (\<exists>w'. store (loadStoredAuth P c w) = store (clearAuth P w'))"
proof -
  let ?w2 = "w\<lparr>store_ops := Suc (Suc (store_ops w))\<rparr>"
  obtain r w3 where g: "authApi_getCurrentUser P c ?w2 = (r, w3)"
    by (cases "authApi_getCurrentUser P c ?w2")
  have s3: "store w3 = store w"
    using get_world(1)[of P c "''/auth/me''" None ?w2] g by (simp add: authApi_getCurrentUser_def)
  show ?thesis
    using g s3
    by (auto simp: loadStoredAuth_def getItemAsync_def Let_def
        split: sum.splits option.splits if_splits)
qed

lemma register_unfold:
  assumes "authApi_register P c userData w = (a, w1)"
  shows "store w1 = store w" "authState w1 = authState w" "loading w1 = loading w"
proof -
  have w1: "w1 = snd (post P c ''/auth/register'' (Some userData) w)"
    using assms by (simp add: authApi_register_def)
  show "store w1 = store w" "authState w1 = authState w" "loading w1 = loading w"
    by (simp_all add: w1 post_world)
qed

lemma login_paired:
  assumes "paired (store w)" "no_write_throws P"
  shows "paired (store (snd (login P c email password w)))"
proof -
  obtain a w1 where a: "authApi_login P c email password w = (a, w1)"
    by (cases "authApi_login P c email password w")
  show ?thesis
    using assms a login_unfold(1)[OF a]
    by (auto simp: login_def setItemAsync_def Let_def paired_def no_write_throws_def
        split: sum.splits option.splits if_splits)
qed

lemma register_paired:
  assumes "paired (store w)" "no_write_throws P"
  shows "paired (store (snd (register P c userData w)))"
proof -
  obtain a w1 where a: "authApi_register P c userData w = (a, w1)"
    by (cases "authApi_register P c userData w")
  show ?thesis
    using assms a register_unfold(1)[OF a]
    by (auto simp: register_def setItemAsync_def Let_def paired_def no_write_throws_def
        split: sum.splits option.splits if_splits)
qed

lemma login_true_stores:
  "fst (login P c email password w) \<Longrightarrow>
     store (snd (login P c email password w)) ''auth_token'' \<noteq> None
     \<and> store (snd (login P c email password w)) ''user_data'' \<noteq> None"
  by (cases "authApi_login P c email password w")
    (auto simp: login_def setItemAsync_def Let_def
      split: sum.splits option.splits if_splits)

lemma register_true_stores:
  "fst (register P c userData w) \<Longrightarrow>
     store (snd (register P c userData w)) ''auth_token'' \<noteq> None
     \<and> store (snd (register P c userData w)) ''user_data'' \<noteq> None"
  by (cases "authApi_register P c userData w")
    (auto simp: register_def setItemAsync_def Let_def
      split: sum.splits option.splits if_splits)

lemma loadStoredAuth_cases:
  assumes "store w ''auth_token'' = Some t" "t \<noteq> []" "store w ''user_data'' = Some u" "u \<noteq> []"
    and "validation_failed (validation_call P c w)"
  shows "\<exists>w'. loadStoredAuth P c w = (clearAuth P w')\<lparr>loading := False\<rparr> \<and> store w' = store w"
proof -
  let ?w2 = "w\<lparr>store_ops := Suc (Suc (store_ops w))\<rparr>"
  obtain r w3 where g: "authApi_getCurrentUser P c ?w2 = (r, w3)"
    by (cases "authApi_getCurrentUser P c ?w2")
  have s3: "store w3 = store w"
    using get_world(1)[of P c "''/auth/me''" None ?w2] g by (simp add: authApi_getCurrentUser_def)
  have vf: "validation_failed r" using assms(5) g by (simp add: validation_call_def)
  show ?thesis
    using assms(1-4) g s3 vf
    by (auto simp: loadStoredAuth_def getItemAsync_def Let_def validation_failed_def
        split: sum.splits option.splits if_splits)
qed

section \<open>Session manager: login\<close>

text \<open>
  C1. A login that fails returns false and leaves the in-memory session state as it was.
  The call \<open>auth.login\<close> itself never writes to the store. When \<open>auth.login\<close> rejects or
  its envelope is a failure, and when the write of the token throws, the store is what it
  was before the call. When the write of the user record throws, the token written just
  before stays in the store: nothing rolls it back. These cases and the successful one
  are all the runs of \<open>login\<close>.
\<close>

theorem login_failure_keeps_state:
  assumes "authApi_login P c email password w = (a, w1)"
  shows "(envelope_failed a \<longrightarrow> login P c email password w = (False, w1))
    \<and> (\<forall>response d. a = Inr response \<and> success response \<and> data response = Some d \<longrightarrow>
         (let token_write_throws =
                store_throws P (store_ops w1) (SetItem ''auth_token'' (payload_token d));
              user_write_throws =
                store_throws P (Suc (store_ops w1))
                  (SetItem ''user_data'' (JSON_stringify P (payload_user d)))
          in (token_write_throws \<longrightarrow>
                fst (login P c email password w) = False
                \<and> store (snd (login P c email password w)) = store w)
           \<and> (\<not> token_write_throws \<and> user_write_throws \<longrightarrow>
                fst (login P c email password w) = False
                \<and> store (snd (login P c email password w))
                    = (store w)(''auth_token'' \<mapsto> payload_token d))
           \<and> (\<not> token_write_throws \<and> \<not> user_write_throws \<longrightarrow>
                fst (login P c email password w) = True)))
    \<and> store w1 = store w \<and> authState w1 = authState w
    \<and> (fst (login P c email password w) = False \<longrightarrow>
          authState (snd (login P c email password w)) = authState w)"
  using assms login_unfold[OF assms]
  by (auto simp: login_def envelope_failed_def setItemAsync_def Let_def
      split: sum.splits option.splits if_splits)

theorem login_failure_keeps_state_witness:
  "envelope_failed (fst (authApi_login login_rejected client0 ''ann@clinic.test'' ''wrong''
      signed_in_world))
   \<and> fst (login login_rejected client0 ''ann@clinic.test'' ''wrong'' signed_in_world) = False
   \<and> authState (snd (login login_rejected client0 ''ann@clinic.test'' ''wrong'' signed_in_world))
       = authState signed_in_world
   \<and> store (snd (login login_rejected client0 ''ann@clinic.test'' ''wrong'' signed_in_world))
       = store signed_in_world"
  using login_failure_keeps_state[of login_rejected client0 "''ann@clinic.test''" "''wrong''"
      signed_in_world
      "fst (authApi_login login_rejected client0 ''ann@clinic.test'' ''wrong'' signed_in_world)"
      "snd (authApi_login login_rejected client0 ''ann@clinic.test'' ''wrong'' signed_in_world)"]
  by (simp add: stub_defs run_defs envelope_failed_def)

text \<open>
  The claim as stated fails when the write of the user record throws: \<open>login\<close> returns
  false, yet the store, empty before the call, holds the token afterwards.
\<close>

theorem login_partial_write_counterexample:
  "fst (login login_ok_user_write_fault client0 ''ann@clinic.test'' ''secret'' fresh_world) = False
   \<and> store fresh_world ''auth_token'' = None
   \<and> store (snd (login login_ok_user_write_fault client0 ''ann@clinic.test'' ''secret''
        fresh_world)) ''auth_token'' = Some ''tok''"
  by (simp add: stub_defs run_defs)

text \<open>
  C2. When \<open>auth.login\<close> resolves with a success envelope whose data holds a user and a
  token, and neither write to the store throws, \<open>login\<close> returns true, the store holds the
  token under \<open>auth_token\<close> and the serialised user under \<open>user_data\<close>, and the session
  state is Authenticated with that user and token.
\<close>

theorem login_success_establishes_session:
  assumes "fst (authApi_login P c email password w) = Inr response"
    and "success response"
    and "data response = Some \<lparr>payload_user = u, payload_token = t\<rparr>"
    and "\<forall>n k v. \<not> store_throws P n (SetItem k v)"
  shows "fst (login P c email password w) = True
    \<and> store (snd (login P c email password w))
        = (store w)(''auth_token'' \<mapsto> t, ''user_data'' \<mapsto> JSON_stringify P u)
    \<and> authState (snd (login P c email password w))
        = \<lparr>user = Some u, token = Some t, isAuthenticated = True\<rparr>"
proof -
  obtain a w1 where a: "authApi_login P c email password w = (a, w1)"
    by (cases "authApi_login P c email password w")
  show ?thesis
    using assms a login_unfold[OF a]
    by (simp add: login_def setItemAsync_def Let_def)
qed

theorem login_success_establishes_session_witness:
  "fst (authApi_login login_ok client0 ''ann@clinic.test'' ''secret'' fresh_world)
     = Inr login_envelope
   \<and> fst (login login_ok client0 ''ann@clinic.test'' ''secret'' fresh_world) = True
   \<and> store (snd (login login_ok client0 ''ann@clinic.test'' ''secret'' fresh_world)) ''auth_token''
       = Some ''tok''
   \<and> store (snd (login login_ok client0 ''ann@clinic.test'' ''secret'' fresh_world)) ''user_data''
       = Some ''{\"id\":1}''
   \<and> authState (snd (login login_ok client0 ''ann@clinic.test'' ''secret'' fresh_world))
       = \<lparr>user = Some ann, token = Some ''tok'', isAuthenticated = True\<rparr>"
proof -
  have api: "fst (authApi_login login_ok client0 ''ann@clinic.test'' ''secret'' fresh_world)
     = Inr login_envelope"
    by (simp add: stub_defs run_defs)
  have env: "success login_envelope"
    "data login_envelope = Some \<lparr>payload_user = ann, payload_token = ''tok''\<rparr>"
    by (simp_all add: login_envelope_def)
  have writes: "\<forall>n k v. \<not> store_throws login_ok n (SetItem k v)"
    by (simp add: login_ok_def stub_platform_def no_faults_def)
  show ?thesis
    using api login_success_establishes_session[OF api env writes]
    by (simp add: login_ok_def stub_platform_def fresh_world_def)
qed

text \<open>
  The claim as stated fails when the write of the token throws: the envelope is a
  success with a user and a token, and \<open>login\<close> returns false with nothing stored.
\<close>

theorem login_store_fault_counterexample:
  "fst (authApi_login login_ok_token_write_fault client0 ''ann@clinic.test'' ''secret''
      fresh_world) = Inr login_envelope
   \<and> success login_envelope
   \<and> data login_envelope = Some \<lparr>payload_user = ann, payload_token = ''tok''\<rparr>
   \<and> fst (login login_ok_token_write_fault client0 ''ann@clinic.test'' ''secret'' fresh_world)
       = False
   \<and> store (snd (login login_ok_token_write_fault client0 ''ann@clinic.test'' ''secret''
        fresh_world)) ''auth_token'' = None"
  by (simp add: stub_defs run_defs)


section \<open>Session manager: logout and hydration\<close>

text \<open>
  C3. Whatever \<open>auth.logout\<close> does (resolve, reject, throw) and whatever the store does,
  \<open>logout\<close> ends with the session state Unauthenticated. Both credential entries are
  gone afterwards when no deletion throws; \<open>clearAuth\<close> logs a deletion error and goes on.
\<close>

theorem logout_clears_session:
  "authState (logout P c w) = \<lparr>user = None, token = None, isAuthenticated = False\<rparr>
   \<and> ((\<forall>n k. \<not> store_throws P n (DeleteItem k)) \<longrightarrow>
        store (logout P c w) ''auth_token'' = None \<and> store (logout P c w) ''user_data'' = None)"
  using logout_authState[of P c w] logout_store[of P c w]
  by (simp add: unauthenticated_def)

theorem logout_clears_session_witness:
  "authState (logout offline client0 signed_in_world)
     = \<lparr>user = None, token = None, isAuthenticated = False\<rparr>
   \<and> store signed_in_world ''auth_token'' = Some ''tok''
   \<and> store (logout offline client0 signed_in_world) ''auth_token'' = None
   \<and> store (logout offline client0 signed_in_world) ''user_data'' = None"
  using logout_clears_session[of offline client0 signed_in_world]
  by (simp add: stub_defs)

text \<open>
  The claim as stated fails when the deletions throw: after \<open>logout\<close> both entries are
  still in the store.
\<close>

theorem logout_delete_fault_counterexample:
  "store (logout offline_delete_fault client0 signed_in_world) ''auth_token'' = Some ''tok''
   \<and> store (logout offline_delete_fault client0 signed_in_world) ''user_data''
       = Some ''{\"id\":1}''"
  by (simp add: stub_defs run_defs)

text \<open>
  C4. A hydration run that finds both entries in the store (each a non-empty string, as
  the test \<open>token && userData\<close> asks) and whose validation by \<open>auth.getCurrentUser\<close> fails
  ends with the session state Unauthenticated; both entries are gone afterwards when no
  deletion throws.
\<close>

theorem hydration_failed_validation_clears:
  assumes "store w ''auth_token'' = Some t" and "t \<noteq> []"
    and "store w ''user_data'' = Some u" and "u \<noteq> []"
    and "validation_failed (validation_call P c w)"
  shows "authState (loadStoredAuth P c w) = \<lparr>user = None, token = None, isAuthenticated = False\<rparr>
   \<and> ((\<forall>n k. \<not> store_throws P n (DeleteItem k)) \<longrightarrow>
        store (loadStoredAuth P c w) ''auth_token'' = None
        \<and> store (loadStoredAuth P c w) ''user_data'' = None)"
proof -
  obtain w' where w': "loadStoredAuth P c w = (clearAuth P w')\<lparr>loading := False\<rparr>"
    using loadStoredAuth_cases[OF assms] by blast
  show ?thesis
    using clearAuth_authState[of P w'] clearAuth_store[of P w']
    by (simp add: w' unauthenticated_def)
qed

theorem hydration_failed_validation_clears_witness:
  "store (mount_world stored_session) ''auth_token'' = Some ''tok''
   \<and> store (mount_world stored_session) ''user_data'' = Some ''{\"id\":1}''
   \<and> validation_failed (validation_call unauthorized client0 (mount_world stored_session))
   \<and> authState (AuthProvider_mount unauthorized client0 stored_session)
       = \<lparr>user = None, token = None, isAuthenticated = False\<rparr>
   \<and> store (AuthProvider_mount unauthorized client0 stored_session) ''auth_token'' = None
   \<and> store (AuthProvider_mount unauthorized client0 stored_session) ''user_data'' = None"
proof -
  have entries: "store (mount_world stored_session) ''auth_token'' = Some ''tok''"
    "''tok'' \<noteq> []"
    "store (mount_world stored_session) ''user_data'' = Some ''{\"id\":1}''"
    "''{\"id\":1}'' \<noteq> []"
    by (simp_all add: mount_world_def stored_session_def)
  have failed: "validation_failed (validation_call unauthorized client0 (mount_world stored_session))"
    by (simp add: stub_defs run_defs validation_failed_def validation_call_def)
  show ?thesis
    using entries(1,3) failed hydration_failed_validation_clears[OF entries failed]
    by (simp add: AuthProvider_mount_def unauthorized_def stub_platform_def no_faults_def)
qed

text \<open>
  The claim as stated fails when the deletions throw: validation fails and both
  entries are still in the store after the run.
\<close>

theorem hydration_delete_fault_counterexample:
  "store (mount_world stored_session) ''auth_token'' = Some ''tok''
   \<and> store (mount_world stored_session) ''user_data'' = Some ''{\"id\":1}''
   \<and> validation_failed (validation_call unauthorized_delete_fault client0
        (mount_world stored_session))
   \<and> store (AuthProvider_mount unauthorized_delete_fault client0 stored_session) ''auth_token''
       = Some ''tok''
   \<and> store (AuthProvider_mount unauthorized_delete_fault client0 stored_session) ''user_data''
       = Some ''{\"id\":1}''"
  by (simp add: stub_defs run_defs validation_failed_def validation_call_def)

text \<open>
  C5. A hydration run that finds the token entry or the user entry absent ends with the
  session state Unauthenticated and has made no network call.
\<close>

theorem hydration_absent_entry_no_network:
  "st ''auth_token'' = None \<or> st ''user_data'' = None \<Longrightarrow>
   authState (AuthProvider_mount P c st) = \<lparr>user = None, token = None, isAuthenticated = False\<rparr>
   \<and> requests (AuthProvider_mount P c st) = []"
  using loadStoredAuth_absent[of "mount_world st" P c]
  by (auto simp: AuthProvider_mount_def mount_world_def initialAuthState_def unauthenticated_def)

theorem hydration_absent_entry_no_network_witness:
  "[''auth_token'' \<mapsto> ''tok''] ''user_data'' = None
   \<and> authState (AuthProvider_mount unauthorized client0 [''auth_token'' \<mapsto> ''tok''])
       = \<lparr>user = None, token = None, isAuthenticated = False\<rparr>
   \<and> requests (AuthProvider_mount unauthorized client0 [''auth_token'' \<mapsto> ''tok'']) = []"
  using hydration_absent_entry_no_network[of "[''auth_token'' \<mapsto> ''tok'']" unauthorized client0]
  by simp

text \<open>
  C9. Started with the two entries both present or both absent, \<open>login\<close> and \<open>register\<close>
  run with no write throwing, and \<open>logout\<close> and hydration run with no deletion throwing,
  leave them both present or both absent. From any store and on any platform, a \<open>login\<close>
  or \<open>register\<close> that returns true leaves both present, and a \<open>logout\<close> in which no
  deletion throws leaves both absent. Nothing bounds the time an entry stays alone after
  an operation in which a write or a deletion threw.
\<close>

theorem store_entries_stay_paired:
  assumes "paired (store w)"
  shows "(no_write_throws P \<longrightarrow>
            paired (store (snd (login P c email password w)))
            \<and> paired (store (snd (register P c userData w))))
     \<and> (no_delete_throws P \<longrightarrow> paired (store (logout P c w)))
     \<and> (no_delete_throws Q \<longrightarrow> paired (store (loadStoredAuth Q c w)))
     \<and> (fst (login R c email password v) \<longrightarrow>
            store (snd (login R c email password v)) ''auth_token'' \<noteq> None
            \<and> store (snd (login R c email password v)) ''user_data'' \<noteq> None)
     \<and> (fst (register R c userData v) \<longrightarrow>
            store (snd (register R c userData v)) ''auth_token'' \<noteq> None
            \<and> store (snd (register R c userData v)) ''user_data'' \<noteq> None)
     \<and> (no_delete_throws R \<longrightarrow>
            store (logout R c v) ''auth_token'' = None
            \<and> store (logout R c v) ''user_data'' = None)"
proof -
  have 1: "no_write_throws P \<longrightarrow>
            paired (store (snd (login P c email password w)))
            \<and> paired (store (snd (register P c userData w)))"
    using login_paired[OF assms] register_paired[OF assms] by blast
  have 2: "no_delete_throws P \<longrightarrow> paired (store (logout P c w))"
    using logout_store[of P c w] by (simp add: no_delete_throws_def paired_def)
  have 3: "no_delete_throws Q \<longrightarrow> paired (store (loadStoredAuth Q c w))"
    using loadStoredAuth_store[of Q c w] assms clearAuth_paired[of Q] by auto
  have 4: "no_delete_throws R \<longrightarrow>
            store (logout R c v) ''auth_token'' = None
            \<and> store (logout R c v) ''user_data'' = None"
    using logout_store[of R c v] by (simp add: no_delete_throws_def)
  from 1 2 3 4 login_true_stores[of R c email password v] register_true_stores[of R c userData v]
  show ?thesis by blast
qed

theorem store_entries_stay_paired_witness:
  "paired (store fresh_world)
   \<and> paired (store (snd (login login_ok client0 ''ann@clinic.test'' ''secret'' fresh_world)))
   \<and> paired (store (snd (register login_ok client0 ann fresh_world)))
   \<and> paired (store (logout login_ok client0 fresh_world))
   \<and> paired (store (loadStoredAuth unauthorized client0 fresh_world))
   \<and> fst (login login_ok client0 ''ann@clinic.test'' ''secret'' lone_token_world)
   \<and> store (snd (login login_ok client0 ''ann@clinic.test'' ''secret'' lone_token_world))
        ''user_data'' \<noteq> None
   \<and> store (logout login_ok client0 lone_token_world) ''auth_token'' = None"
proof -
  have start: "paired (store fresh_world)"
    by (simp add: paired_def fresh_world_def)
  have P: "no_write_throws login_ok" "no_delete_throws login_ok"
    by (simp_all add: no_write_throws_def no_delete_throws_def login_ok_def stub_platform_def
        no_faults_def)
  have Q: "no_delete_throws unauthorized"
    by (simp add: no_delete_throws_def unauthorized_def stub_platform_def no_faults_def)
  have ok: "fst (login login_ok client0 ''ann@clinic.test'' ''secret'' lone_token_world)"
    by (simp add: lone_token_world_def stub_defs run_defs)
  show ?thesis
    using start P Q ok
      store_entries_stay_paired[OF start, of login_ok client0 "''ann@clinic.test''" "''secret''"
        ann unauthorized login_ok lone_token_world]
    by simp
qed

text \<open>
  The claim as stated fails in its second part. A login whose write of the user record
  throws leaves the token alone in the store; the next start of the application hydrates
  with no fault, makes no network call and leaves the token alone still.
\<close>

theorem lone_token_survives_hydration_counterexample:
  "paired (store fresh_world)
   \<and> store lone_token_world ''auth_token'' = Some ''tok''
   \<and> store lone_token_world ''user_data'' = None
   \<and> store (AuthProvider_mount unauthorized client0 (store lone_token_world)) ''auth_token''
       = Some ''tok''
   \<and> store (AuthProvider_mount unauthorized client0 (store lone_token_world)) ''user_data''
       = None
   \<and> requests (AuthProvider_mount unauthorized client0 (store lone_token_world)) = []"
  by (simp add: lone_token_world_def paired_def stub_defs run_defs)

section \<open>HTTP client core\<close>

text \<open>
  C6. Every request made by \<open>get\<close>, \<open>post\<close>, \<open>put\<close> or \<open>delete\<close> carries the header
  \<open>Content-Type: application/json\<close>, and carries \<open>Authorization: Bearer <token>\<close> exactly
  when the store holds a non-empty token at the time of the call; an empty token counts
  as none (\<open>if (token)\<close>).
\<close>

theorem request_headers:
  assumes "op \<in> {post P c ep d, put P c ep d, delete P c ep, get P c ep params}"
    and "req \<in> set (drop (length (requests w)) (requests (snd (op w))))"
  shows "headers req ''Content-Type'' = Some ''application/json''
     \<and> headers req ''Authorization'' =
          (case store w ''auth_token'' of
             None \<Rightarrow> None
           | Some t \<Rightarrow> if t = [] then None else Some (''Bearer '' @ t))"
  using assms headers_of_getAuthHeaders[of P w]
  by (auto simp: post_requests put_requests delete_requests get_requests
      split: sum.splits)

theorem request_headers_witness:
  "hd (requests (snd (post no_content client0 ''/patients'' None signed_in_world)))
     \<in> set (drop (length (requests signed_in_world))
          (requests (snd (post no_content client0 ''/patients'' None signed_in_world))))
   \<and> headers (hd (requests (snd (post no_content client0 ''/patients'' None signed_in_world))))
       ''Content-Type'' = Some ''application/json''
   \<and> headers (hd (requests (snd (post no_content client0 ''/patients'' None signed_in_world))))
       ''Authorization'' = Some ''Bearer tok''"
proof -
  have made: "hd (requests (snd (post no_content client0 ''/patients'' None signed_in_world)))
     \<in> set (drop (length (requests signed_in_world))
          (requests (snd (post no_content client0 ''/patients'' None signed_in_world))))"
    by (simp add: stub_defs run_defs)
  have op: "post no_content client0 ''/patients'' None
     \<in> {post no_content client0 ''/patients'' None, put no_content client0 ''/patients'' None,
        delete no_content client0 ''/patients'', get no_content client0 ''/patients'' None}"
    by simp
  show ?thesis
    using made request_headers[OF op made]
    by (simp add: signed_in_world_def stored_session_def)
qed

text \<open>
  The claim as stated fails for a stored token that is the empty string: the entry
  exists and the request carries no \<open>Authorization\<close> header.
\<close>

theorem empty_token_no_header_counterexample:
  "store empty_token_world ''auth_token'' = Some []
   \<and> length (requests (snd (post no_content client0 ''/auth/logout'' None empty_token_world))) = 1
   \<and> headers (hd (requests (snd (post no_content client0 ''/auth/logout'' None
        empty_token_world)))) ''Authorization'' = None"
  by (simp add: stub_defs run_defs)

text \<open>
  C7. For a response whose content type is absent or does not contain the text
  \<open>application/json\<close>: with a status outside 200 to 299, \<open>handleResponse\<close> throws the error
  whose message is \<open>Request failed with status\<close> followed by the decimal status code, and
  with a status inside it returns the envelope with \<open>success\<close> true and no data. Either
  result is the same whatever \<open>response.json()\<close> would have given: the body is not parsed.
\<close>

theorem handleResponse_not_json:
  "\<not> is_json_content_type (response_headers r ''content-type'') \<Longrightarrow>
     (\<not> ok r \<longrightarrow>
        (\<forall>j. handleResponse (r\<lparr>json := j\<rparr>)
               = Inl (Error (''Request failed with status '' @ number_toString (status r))))
        \<and> decimal_value (number_toString (status r)) = status r)
     \<and> (ok r \<longrightarrow>
        (\<forall>j. handleResponse (r\<lparr>json := j\<rparr>)
               = Inr \<lparr>success = True, message = None, data = None, error = None,
                      pagination = None\<rparr>))"
  by (simp add: handleResponse_def ok_def synthetic_success_def decimal_value_number_toString)

theorem handleResponse_not_json_witness:
  "\<not> is_json_content_type (response_headers (html_response 500 :: json Response) ''content-type'')
   \<and> \<not> ok (html_response 500 :: json Response)
   \<and> handleResponse (html_response 500 :: json Response)
       = Inl (Error ''Request failed with status 500'')
   \<and> ok (html_response 204 :: json Response)
   \<and> handleResponse (html_response 204 :: json Response)
       = Inr \<lparr>success = True, message = None, data = None, error = None, pagination = None\<rparr>"
proof -
  have ct: "\<not> is_json_content_type
      (response_headers (html_response code :: json Response) ''content-type'')" for code
    by (simp add: html_response_def is_json_content_type_def)
  have same: "(html_response code :: json Response)\<lparr>json := Inl SyntaxError\<rparr> = html_response code"
    for code
    by (simp add: html_response_def)
  have shown: "number_toString 500 = ''500''"
    by (simp add: number_toString.simps digit_def)
  show ?thesis
    using ct[of 500] handleResponse_not_json[OF ct[of 500]] handleResponse_not_json[OF ct[of 204]]
      same[of 500] same[of 204] shown
    by (simp add: ok_def html_response_def)
qed

text \<open>
  The claim as stated fails for a content type that is not JSON and contains the text
  \<open>application/json\<close>: the body is parsed, and with status 500 and a body that does not
  parse the parse exception is thrown, not the error with the status code.
\<close>

theorem not_json_parsed_counterexample:
  "\<not> declares_json (response_headers
        (typed_response ''application/json-seq'' 500 (Inl SyntaxError) :: json Response)
        ''content-type'')
   \<and> \<not> ok (typed_response ''application/json-seq'' 500 (Inl SyntaxError) :: json Response)
   \<and> handleResponse (typed_response ''application/json-seq'' 500 (Inl SyntaxError) :: json Response)
       = Inl SyntaxError
   \<and> \<not> declares_json (response_headers
        (typed_response ''text/html; note=application/json'' 500 (Inl SyntaxError) :: json Response)
        ''content-type'')
   \<and> handleResponse
        (typed_response ''text/html; note=application/json'' 500 (Inl SyntaxError) :: json Response)
       = Inl SyntaxError"
  by (simp add: mime_defs handleResponse_def is_json_content_type_def ok_def)

text \<open>
  C10. For a response whose content type contains the text \<open>application/json\<close>, in this
  case of the letters, and whose status is in 200 to 299 and body parses, \<open>handleResponse\<close>
  returns the parsed body as it is, whatever its \<open>success\<close> field. For every response it
  throws only when the status is outside that range or when parsing the body threw, and
  whether it throws does not depend on the \<open>success\<close> field of the body.
\<close>

theorem handleResponse_json_ok:
  "(is_json_content_type (response_headers r ''content-type'') \<and> ok r \<and> json r = Inr d
      \<longrightarrow> handleResponse r = Inr d)
   \<and> (handleResponse r = Inl e
      \<longrightarrow> \<not> ok r \<or> (is_json_content_type (response_headers r ''content-type'') \<and> json r = Inl e))
   \<and> isl (handleResponse (r\<lparr>json := Inr (d\<lparr>success := b\<rparr>)\<rparr>))
       = isl (handleResponse (r\<lparr>json := Inr d\<rparr>))"
  by (auto simp: handleResponse_def ok_def split: if_splits sum.splits)

theorem handleResponse_json_ok_witness:
  "is_json_content_type (response_headers (json_response 200 rejected_envelope) ''content-type'')
   \<and> ok (json_response 200 rejected_envelope)
   \<and> \<not> success rejected_envelope
   \<and> handleResponse (json_response 200 rejected_envelope) = Inr rejected_envelope
   \<and> handleResponse (html_response 500 :: AuthPayload Response)
       = Inl (Error ''Request failed with status 500'')
   \<and> \<not> ok (html_response 500 :: AuthPayload Response)"
proof -
  have thrown: "handleResponse (html_response 500 :: AuthPayload Response)
       = Inl (Error ''Request failed with status 500'')"
    by (simp add: handleResponse_def html_response_def is_json_content_type_def ok_def
        number_toString.simps digit_def)
  show ?thesis
    using thrown
      handleResponse_json_ok[of "json_response 200 rejected_envelope" rejected_envelope]
      handleResponse_json_ok[of "html_response 500 :: AuthPayload Response" _
        "Error ''Request failed with status 500''"]
    by (simp add: json_response_def html_response_def is_json_content_type_def ok_def
        rejected_envelope_def)
qed

text \<open>
  The claim as stated fails for a JSON content type that does not contain the text
  \<open>application/json\<close> in lower case: with status 200 the parsed body, whose \<open>success\<close> is
  false, is dropped and the envelope with \<open>success\<close> true is returned.
\<close>

theorem json_type_unparsed_counterexample:
  "declares_json (response_headers
        (typed_response ''application/vnd.api+json'' 200 (Inr rejected_envelope)) ''content-type'')
   \<and> ok (typed_response ''application/vnd.api+json'' 200 (Inr rejected_envelope))
   \<and> json (typed_response ''application/vnd.api+json'' 200 (Inr rejected_envelope))
       = Inr rejected_envelope
   \<and> handleResponse (typed_response ''application/vnd.api+json'' 200 (Inr rejected_envelope))
       = Inr \<lparr>success = True, message = None, data = None, error = None, pagination = None\<rparr>
   \<and> handleResponse (typed_response ''application/vnd.api+json'' 200 (Inr rejected_envelope))
       \<noteq> Inr rejected_envelope
   \<and> declares_json (response_headers
        (typed_response ''Application/JSON'' 200 (Inr rejected_envelope)) ''content-type'')
   \<and> handleResponse (typed_response ''Application/JSON'' 200 (Inr rejected_envelope))
       \<noteq> Inr rejected_envelope"
  by (simp add: mime_defs handleResponse_def is_json_content_type_def ok_def
      synthetic_success_def rejected_envelope_def)

text \<open>
  C8. When \<open>new URL\<close> takes base endpoint and path as they are (an absolute URL already
  in serialised form, with no query and no fragment), \<open>get(path, params)\<close> requests the
  base endpoint, the path and, for a non-empty \<open>params\<close>, a question mark and the
  parameters form-urlencoded in the order of \<open>Object.entries\<close>. That is the order supplied
  when no key is an array index, and keys and values of letters, digits and \<open>*-._\<close> appear
  as they are.
\<close>

theorem get_requested_url:
  assumes "URL_new P (baseURL c @ path)
           = Inr \<lparr>href_before_query = baseURL c @ path, query = None, searchParams = [],
                  fragment = None\<rparr>"
    and "\<not> store_throws P (store_ops w) (GetItem ''auth_token'')"
  shows "map url (drop (length (requests w)) (requests (snd (get P c path (Some ps) w))))
         = [baseURL c @ path
            @ (if ps = [] then [] else ''?'' @ urlencoded_serialize (Object_entries ps))]
     \<and> ((\<forall>kv \<in> set ps. \<not> is_array_index (fst kv)) \<longrightarrow> Object_entries ps = ps)
     \<and> ((\<forall>kv \<in> set ps. \<not> is_array_index (fst kv) \<and> form_safe (fst kv) \<and> form_safe (snd kv))
          \<longrightarrow> urlencoded_serialize (Object_entries ps)
               = join ''&'' (map (\<lambda>kv. fst kv @ ''='' @ snd kv) ps))"
proof -
  obtain hs where hs: "fst (getAuthHeaders P w) = Inr hs"
    using getAuthHeaders_result[OF assms(2)] by blast
  let ?u0 = "\<lparr>href_before_query = baseURL c @ path, query = None, searchParams = [],
              fragment = None\<rparr>"
  have "URL_toString (built_url ?u0 (Some ps))
        = baseURL c @ path
          @ (if ps = [] then [] else ''?'' @ urlencoded_serialize (Object_entries ps))"
    using append_fold_fields[of ?u0 "Object_entries ps"]
      urlencoded_serialize_nonempty[of "Object_entries ps"]
    by (simp add: URL_toString_def built_url_def Object_entries_Nil)
  then have 1: "map url (drop (length (requests w)) (requests (snd (get P c path (Some ps) w))))
         = [baseURL c @ path
            @ (if ps = [] then [] else ''?'' @ urlencoded_serialize (Object_entries ps))]"
    using assms(1) hs by (simp add: get_requests)
  have 2: "(\<forall>kv \<in> set ps. \<not> is_array_index (fst kv)) \<longrightarrow> Object_entries ps = ps"
    using Object_entries_no_index by blast
  have 3: "(\<forall>kv \<in> set ps. \<not> is_array_index (fst kv) \<and> form_safe (fst kv) \<and> form_safe (snd kv))
          \<longrightarrow> urlencoded_serialize (Object_entries ps)
               = join ''&'' (map (\<lambda>kv. fst kv @ ''='' @ snd kv) ps)"
    using Object_entries_no_index[of ps] urlencoded_serialize_safe[of ps] by auto
  from 1 2 3 show ?thesis by blast
qed

theorem get_requested_url_witness:
  "URL_new no_content (baseURL client0 @ ''/patients'')
     = Inr \<lparr>href_before_query = baseURL client0 @ ''/patients'', query = None,
            searchParams = [], fragment = None\<rparr>
   \<and> map url (requests (snd (get no_content client0 ''/patients'' (Some [(''search'', ''doe'')])
        fresh_world)))
       = [''http://192.168.0.187:3000/api/patients?search=doe'']"
proof -
  have parsed: "URL_new no_content (baseURL client0 @ ''/patients'')
     = Inr \<lparr>href_before_query = baseURL client0 @ ''/patients'', query = None,
            searchParams = [], fragment = None\<rparr>"
    by (simp add: no_content_def stub_platform_def plain_URL_def)
  have read: "\<not> store_throws no_content (store_ops fresh_world) (GetItem ''auth_token'')"
    by (simp add: no_content_def stub_platform_def no_faults_def)
  have entries: "Object_entries [(''search'', ''doe'')] = [(''search'', ''doe'')]"
    by (simp add: url_defs)
  have query: "urlencoded_serialize [(''search'', ''doe'')] = ''search=doe''"
    by (simp add: url_defs)
  show ?thesis
    using parsed get_requested_url[OF parsed read, of "[(''search'', ''doe'')]"] entries query
    by (simp add: fresh_world_def client0_def apiClient_def API_BASE_URL_def)
qed

text \<open>
  The claim as stated fails for a key that is an array index: supplied after \<open>search\<close>,
  the parameter \<open>10\<close> is requested before it.
\<close>

theorem get_order_counterexample:
  "map url (requests (snd (get no_content client0 ''/patients''
       (Some [(''search'', ''doe''), (''10'', ''a'')]) fresh_world)))
   = [''http://192.168.0.187:3000/api/patients?10=a&search=doe'']"
  by (simp add: stub_defs run_defs url_defs)

end
